theory Spec2Isabelle
  imports Complex_Main
begin

section \<open>Overpass response data (src/components/SmolenskMap.tsx, lines 42-52)\<close>

text \<open>
  The TypeScript interfaces \<^verbatim>\<open>OverpassElement\<close> and \<^verbatim>\<open>OverpassResponse\<close>.
  An optional field (\<^verbatim>\<open>tags?\<close>, \<^verbatim>\<open>geometry?\<close>) is an \<open>option\<close>: \<open>None\<close> is the absent
  field. A JavaScript number that came out of \<^verbatim>\<open>res.json()\<close> is never NaN, and \<^verbatim>\<open>!==\<close> on
  such numbers is numeric inequality (the two zeros compare equal), so coordinates are
  modelled as \<open>real\<close>. The tag object \<^verbatim>\<open>Record<string, string>\<close> is an association
  list read with \<open>map_of\<close>. The field \<^verbatim>\<open>id\<close> is \<open>id_el\<close> here, and \<open>id_pt\<close> for a point of
  interest, since \<open>id\<close> is the identity function of HOL.
\<close>

datatype element_type = Way | Node | Relation

record LatLon =
  lat :: real
  lon :: real

record OverpassElement =
  type :: element_type
  id_el :: int
  tags :: "(string \<times> string) list option"
  geometry :: "LatLon list option"

record OverpassResponse =
  elements :: "OverpassElement list"

type_synonym polyline = "(real \<times> real) list"

text \<open>
  \<^verbatim>\<open>el.tags["highway"]\<close> used as a condition: the lookup gives \<^verbatim>\<open>undefined\<close> for a
  missing key, and a string is truthy exactly when it is not empty.
\<close>

definition truthy :: "string option \<Rightarrow> bool" where
  "truthy v = (case v of None \<Rightarrow> False | Some s \<Rightarrow> s \<noteq> [])"

definition tag :: "(string \<times> string) list \<Rightarrow> string \<Rightarrow> bool" where
  "tag ts k = truthy (map_of ts k)"

section \<open>The parsing loop of useOverpassData (lines 83-99)\<close>

text \<open>\<^verbatim>\<open>el.geometry.map((p) => [p.lat, p.lon])\<close>\<close>

definition to_pairs :: "LatLon list \<Rightarrow> polyline" where
  "to_pairs g = map (\<lambda>p. (lat p, lon p)) g"

text \<open>
  Lines 91-97: the polygon is built, and kept only when it has more than two points;
  the first point is pushed again when it differs from the last one. The result is
  what is pushed on \<^verbatim>\<open>_buildings\<close>, \<open>None\<close> when nothing is pushed.
\<close>

definition close_polygon :: "LatLon list \<Rightarrow> polyline option" where
  "close_polygon g =
     (let poly = to_pairs g in
      if length poly > 2 then
        (let first = poly ! 0; last' = poly ! (length poly - 1) in
         if fst first \<noteq> fst last' \<or> snd first \<noteq> snd last'
         then Some (poly @ [first]) else Some poly)
      else None)"

text \<open>
  One iteration of \<^verbatim>\<open>for (const el of json.elements)\<close> on the two accumulators
  \<^verbatim>\<open>_roads\<close> and \<^verbatim>\<open>_buildings\<close>; \<^verbatim>\<open>push\<close> appends at the end.
\<close>

definition loop_body :: "OverpassElement \<Rightarrow> polyline list \<times> polyline list \<Rightarrow> polyline list \<times> polyline list" where
  "loop_body el acc =
     (case acc of (rs, bs) \<Rightarrow>
        if type el = Way then
          (case geometry el of
             None \<Rightarrow> (rs, bs)
           | Some g \<Rightarrow>
               (case tags el of
                  None \<Rightarrow> (rs, bs)
                | Some ts \<Rightarrow>
                    if tag ts ''highway'' then (rs @ [to_pairs g], bs)
                    else if tag ts ''building'' then
                      (case close_polygon g of
                         None \<Rightarrow> (rs, bs)
                       | Some poly \<Rightarrow> (rs, bs @ [poly]))
                    else (rs, bs)))
        else (rs, bs))"

fun elements_loop :: "OverpassElement list \<Rightarrow> polyline list \<times> polyline list \<Rightarrow> polyline list \<times> polyline list" where
  "elements_loop [] acc = acc"
| "elements_loop (el # els) acc = elements_loop els (loop_body el acc)"

text \<open>
  The conditions under which an iteration reaches line 88 (a road is pushed) and
  line 91 (a building polygon is built): the guard of line 86 has not skipped the
  element, and the tag tests of lines 87 and 89 are taken in this order.
\<close>

definition points_of :: "OverpassElement \<Rightarrow> LatLon list" where
  "points_of el = (case geometry el of None \<Rightarrow> [] | Some g \<Rightarrow> g)"

definition is_roadway :: "OverpassElement \<Rightarrow> bool" where
  "is_roadway el =
     (type el = Way \<and> geometry el \<noteq> None \<and>
      (case tags el of None \<Rightarrow> False | Some ts \<Rightarrow> tag ts ''highway''))"

definition is_structure :: "OverpassElement \<Rightarrow> bool" where
  "is_structure el =
     (type el = Way \<and> geometry el \<noteq> None \<and>
      (case tags el of None \<Rightarrow> False | Some ts \<Rightarrow> \<not> tag ts ''highway'' \<and> tag ts ''building''))"


section \<open>The state of the hook and the body of fetchData (lines 55-108)\<close>

record hook_state =
  roads :: "polyline list"
  buildings :: "polyline list"
  loading :: bool
  error :: "string option"

text \<open>The four \<^verbatim>\<open>useState\<close> initial values (lines 55-58).\<close>

definition initial_hook :: hook_state where
  "initial_hook = \<lparr>roads = [], buildings = [], loading = True, error = None\<rparr>"

text \<open>
  A thrown value, read only through \<^verbatim>\<open>e?.message\<close>; \<open>None\<close> is a value with no message.
  What the two awaited promises settle to: \<^verbatim>\<open>fetch\<close> rejects or gives a response with
  \<^verbatim>\<open>ok\<close> and \<^verbatim>\<open>status\<close>, whose \<^verbatim>\<open>json()\<close> rejects (\<open>Inl\<close>) or gives the decoded payload.
\<close>

record js_error =
  message :: "string option"

record Response =
  ok :: bool
  status :: nat
  json :: "js_error + OverpassResponse"

datatype fetch_outcome = Rejected js_error | Resolved Response

text \<open>The decimal text of \<^verbatim>\<open>${res.status}\<close> in the template string of line 80.\<close>

fun string_of_nat :: "nat \<Rightarrow> string" where
  "string_of_nat n =
     (if n < 10 then [''0123456789'' ! n]
      else string_of_nat (n div 10) @ [''0123456789'' ! (n mod 10)])"

declare string_of_nat.simps [simp del]

text \<open>
  Lines 75-81, the part of the \<^verbatim>\<open>try\<close> block that can throw: \<open>Inl\<close> is the value thrown,
  \<open>Inr\<close> the payload reached at line 82.
\<close>

definition awaited :: "fetch_outcome \<Rightarrow> js_error + OverpassResponse" where
  "awaited r =
     (case r of
        Rejected e \<Rightarrow> Inl e
      | Resolved res \<Rightarrow>
          if \<not> ok res
          then Inl \<lparr>message = Some (''Overpass error: '' @ string_of_nat (status res))\<rparr>
          else json res)"

text \<open>Lines 63-64, run synchronously when the effect starts.\<close>

definition fetchData_start :: "hook_state \<Rightarrow> hook_state" where
  "fetchData_start s = s\<lparr>loading := True, error := None\<rparr>"

text \<open>
  Lines 82-107, run in one piece once the awaited promises have settled; \<open>cancelled\<close>
  is the value of the closure variable at that moment. The \<^verbatim>\<open>finally\<close> block runs on
  every path, also after the \<^verbatim>\<open>return\<close> of line 82.
\<close>

definition fetchData_settle :: "bool \<Rightarrow> fetch_outcome \<Rightarrow> hook_state \<Rightarrow> hook_state" where
  "fetchData_settle cancelled r s =
     (let s1 =
        (case awaited r of
           Inl e \<Rightarrow>
             if \<not> cancelled
             then s\<lparr>error := Some (case message e of None \<Rightarrow> ''Failed to load map data'' | Some m \<Rightarrow> m)\<rparr>
             else s
         | Inr payload \<Rightarrow>
             if cancelled then s
             else
               (case elements_loop (elements payload) ([], []) of
                  (roads', buildings') \<Rightarrow>
                    s\<lparr>roads := roads', buildings := take 4000 buildings'\<rparr>))
      in if \<not> cancelled then s1\<lparr>loading := False\<rparr> else s1)"

text \<open>A response with \<^verbatim>\<open>res.ok\<close> whose body decodes to the elements \<open>els\<close>.\<close>

abbreviation ok_response :: "nat \<Rightarrow> OverpassElement list \<Rightarrow> fetch_outcome" where
  "ok_response st els \<equiv> Resolved \<lparr>ok = True, status = st, json = Inr \<lparr>elements = els\<rparr>\<rparr>"

section \<open>The effect and its cancellation flag (lines 60-113)\<close>

record bbox =
  south :: real
  west :: real
  north :: real
  east :: real

text \<open>
  Every run of the effect callback has its own variable \<^verbatim>\<open>cancelled\<close>; the runs are kept
  in the order they started. A render whose dependencies (the four numbers of the
  bounding box) differ from the previous ones, or the first render, runs the cleanup
  of the previous run and then the callback; unmounting runs the cleanup of the last
  run. \<open>Settle i r\<close> is the moment the promises awaited by run \<open>i\<close> have settled to \<open>r\<close>.
\<close>

record effect_run =
  for_bbox :: bbox
  cancelled :: bool

record component =
  hook :: hook_state
  deps :: "bbox option"
  runs :: "effect_run list"
  unmounted :: bool

datatype event = Render bbox | Unmount | Settle nat fetch_outcome

definition initial_component :: component where
  "initial_component = \<lparr>hook = initial_hook, deps = None, runs = [], unmounted = False\<rparr>"

text \<open>The cleanup function of lines 110-112, applied to the most recent run.\<close>

definition cleanup :: "effect_run list \<Rightarrow> effect_run list" where
  "cleanup rs = (case rev rs of [] \<Rightarrow> [] | r # before \<Rightarrow> rev before @ [r\<lparr>cancelled := True\<rparr>])"

fun step :: "event \<Rightarrow> component \<Rightarrow> component" where
  "step (Render b) c =
     (if unmounted c \<or> deps c = Some b then c
      else c\<lparr>hook := fetchData_start (hook c),
             deps := Some b,
             runs := cleanup (runs c) @ [\<lparr>for_bbox = b, cancelled = False\<rparr>]\<rparr>)"
| "step Unmount c = c\<lparr>runs := cleanup (runs c), unmounted := True\<rparr>"
| "step (Settle i r) c =
     (if i < length (runs c)
      then c\<lparr>hook := fetchData_settle (cancelled (runs c ! i)) r (hook c)\<rparr>
      else c)"

fun run :: "event list \<Rightarrow> component \<Rightarrow> component" where
  "run [] c = c"
| "run (e # es) c = run es (step e c)"

text \<open>
  The property the cancellation flags are meant to keep: every run but the most recent
  one is cancelled, every run is cancelled once the component is unmounted, and the
  most recent run was started for the current dependencies.
\<close>

definition only_latest_live :: "component \<Rightarrow> bool" where
  "only_latest_live c =
     ((\<forall>i. Suc i < length (runs c) \<longrightarrow> cancelled (runs c ! i)) \<and>
      (unmounted c \<longrightarrow> (\<forall>i < length (runs c). cancelled (runs c ! i))) \<and>
      (runs c \<noteq> [] \<longrightarrow> deps c = Some (for_bbox (last (runs c)))))"

section \<open>Selection state of SmolenskMap (lines 119-151, 230, 251, 270)\<close>

record point =
  id_pt :: int
  name :: string
  coords :: "real \<times> real"

definition points :: "point list" where
  "points =
     [\<lparr>id_pt = 1, name = ''Smolensk Center'', coords = (54.7818, 32.0401)\<rparr>,
      \<lparr>id_pt = 2, name = ''Lopatinsky Garden'', coords = (54.7769, 32.0496)\<rparr>,
      \<lparr>id_pt = 3, name = ''Smolensk Fortress Wall'', coords = (54.7838, 32.0436)\<rparr>]"

record selection =
  panelOpen :: bool
  activePoint :: "int option"
  showLabels :: bool

definition initial_selection :: selection where
  "initial_selection = \<lparr>panelOpen = False, activePoint = None, showLabels = False\<rparr>"

definition handlePointClick :: "int \<Rightarrow> selection \<Rightarrow> selection" where
  "handlePointClick i s = s\<lparr>activePoint := Some i, panelOpen := True\<rparr>"

text \<open>The \<^verbatim>\<open>onClick\<close> of the Close button (line 270).\<close>

definition close_click :: "selection \<Rightarrow> selection" where
  "close_click s = s\<lparr>panelOpen := False\<rparr>"

text \<open>The \<^verbatim>\<open>active\<close> property handed to each point (line 230).\<close>

definition active :: "selection \<Rightarrow> point \<Rightarrow> bool" where
  "active s p = (activePoint s = Some (id_pt p))"


section \<open>What the loop computes\<close>

lemmas eval_defs = fetchData_settle_def awaited_def loop_body_def close_polygon_def to_pairs_def
  tag_def truthy_def Let_def initial_hook_def

lemma length_to_pairs: "length (to_pairs g) = length g"
  by (simp add: to_pairs_def)

lemma nth_to_pairs: "i < length g \<Longrightarrow> to_pairs g ! i = (lat (g ! i), lon (g ! i))"
  by (simp add: to_pairs_def)

lemma close_polygon_None: "close_polygon g = None \<longleftrightarrow> length g \<le> 2"
  by (auto simp: close_polygon_def Let_def length_to_pairs)

lemma close_polygon_Some:
  assumes "close_polygon g = Some poly"
  shows "3 \<le> length poly" and "poly ! 0 = poly ! (length poly - 1)"
proof -
  let ?p = "to_pairs g"
  from assms have len: "2 < length ?p"
    by (auto simp: close_polygon_def Let_def split: if_splits)
  from assms have "poly = ?p @ [?p ! 0] \<or> (poly = ?p \<and> ?p ! 0 = ?p ! (length ?p - 1))"
    by (auto simp: close_polygon_def Let_def prod_eq_iff split: if_splits)
  then show "poly ! 0 = poly ! (length poly - 1)"
    using len by (auto simp: nth_append)
  from assms len show "3 \<le> length poly"
    by (auto simp: close_polygon_def Let_def split: if_splits)
qed

lemma loop_body_eq:
  "loop_body el (rs, bs) =
     (rs @ (if is_roadway el then [to_pairs (points_of el)] else []),
      bs @ (if is_structure el
            then (case close_polygon (points_of el) of None \<Rightarrow> [] | Some poly \<Rightarrow> [poly])
            else []))"
  by (auto simp: loop_body_def is_roadway_def is_structure_def points_of_def
           split: option.splits)

lemma elements_loop_eq:
  "elements_loop els (rs, bs) =
     (rs @ map (\<lambda>el. to_pairs (points_of el)) (filter is_roadway els),
      bs @ List.map_filter (\<lambda>el. close_polygon (points_of el)) (filter is_structure els))"
proof (induction els arbitrary: rs bs)
  case Nil
  show ?case by simp
next
  case (Cons el els)
  show ?case
    by (simp add: loop_body_eq Cons.IH split: option.splits)
qed

lemma settle_ok:
  "fetchData_settle False (ok_response st els) s =
     s\<lparr>roads := map (\<lambda>el. to_pairs (points_of el)) (filter is_roadway els),
       buildings := take 4000 (List.map_filter (\<lambda>el. close_polygon (points_of el)) (filter is_structure els)),
       loading := False\<rparr>"
  by (simp add: fetchData_settle_def awaited_def elements_loop_eq)

lemma settle_cancelled: "fetchData_settle True r s = s"
  by (simp add: fetchData_settle_def split: sum.splits)

lemma in_map_filterD: "y \<in> set (List.map_filter f xs) \<Longrightarrow> \<exists>x \<in> set xs. f x = Some y"
  by (auto simp: List.map_filter_def)

section \<open>Building polygons are closed\<close>

text \<open>
  Claim C1. After a successful, uncancelled fetch, every polygon stored in the
  building state is closed: its first pair \<^verbatim>\<open>poly[0]\<close> equals its last pair
  \<^verbatim>\<open>poly[poly.length - 1]\<close>, whether or not the geometry it came from was closed.
\<close>

theorem building_polygons_closed:
  assumes "poly \<in> set (buildings (fetchData_settle False (ok_response st els) s))"
  shows "poly \<noteq> [] \<and> poly ! 0 = poly ! (length poly - 1)"
proof -
  from assms have "poly \<in> set (List.map_filter (\<lambda>el. close_polygon (points_of el)) (filter is_structure els))"
    by (auto simp: settle_ok dest: in_set_takeD)
  then obtain el where "close_polygon (points_of el) = Some poly"
    by (blast dest: in_map_filterD)
  from close_polygon_Some [OF this] show ?thesis by auto
qed

text \<open>An open triangle and an already closed outline, fetched together.\<close>

theorem building_polygons_closed_witness:
  "[(1, 1), (1, 2), (2, 2), (1, 1)] \<in> set (buildings (fetchData_settle False
      (ok_response 200
        [\<lparr>type = Way, id_el = 7, tags = Some [(''building'', ''yes'')],
          geometry = Some [\<lparr>lat = 1, lon = 1\<rparr>, \<lparr>lat = 1, lon = 2\<rparr>, \<lparr>lat = 2, lon = 2\<rparr>]\<rparr>,
         \<lparr>type = Way, id_el = 8, tags = Some [(''building'', ''shed'')],
          geometry = Some [\<lparr>lat = 5, lon = 5\<rparr>, \<lparr>lat = 5, lon = 6\<rparr>, \<lparr>lat = 6, lon = 6\<rparr>, \<lparr>lat = 5, lon = 5\<rparr>]\<rparr>])
      initial_hook))
   \<and> [(1, 1), (1, 2), (2, 2), (1, 1 :: real)] ! 0
       = [(1, 1 :: real), (1, 2), (2, 2), (1, 1)] ! (length [(1, 1 :: real), (1, 2), (2, 2), (1, 1 :: real)] - 1)"
  using building_polygons_closed [of "[(1, 1), (1, 2), (2, 2), (1, 1)]" 200
      "[\<lparr>type = Way, id_el = 7, tags = Some [(''building'', ''yes'')],
          geometry = Some [\<lparr>lat = 1, lon = 1\<rparr>, \<lparr>lat = 1, lon = 2\<rparr>, \<lparr>lat = 2, lon = 2\<rparr>]\<rparr>,
         \<lparr>type = Way, id_el = 8, tags = Some [(''building'', ''shed'')],
          geometry = Some [\<lparr>lat = 5, lon = 5\<rparr>, \<lparr>lat = 5, lon = 6\<rparr>, \<lparr>lat = 6, lon = 6\<rparr>, \<lparr>lat = 5, lon = 5\<rparr>]\<rparr>]"
      initial_hook]
  by (simp add: eval_defs)

section \<open>Roads keep their points\<close>

text \<open>
  Claim C2, as stated, takes every way element with geometry whose tags contain the key
  \<^verbatim>\<open>highway\<close> to have an entry in the road state. Line 87 tests the value for
  truthiness, and the empty string is falsy: the way below has the key, two points,
  and no entry at all.
\<close>

theorem empty_highway_value_counterexample:
  "map_of [(''highway'', [])] ''highway'' = Some []
   \<and> type \<lparr>type = Way, id_el = 1, tags = Some [(''highway'', [])],
        geometry = Some [\<lparr>lat = 1, lon = 2\<rparr>, \<lparr>lat = 3, lon = 4\<rparr>]\<rparr> = Way
   \<and> geometry \<lparr>type = Way, id_el = 1, tags = Some [(''highway'', [])],
        geometry = Some [\<lparr>lat = 1, lon = 2\<rparr>, \<lparr>lat = 3, lon = 4\<rparr>]\<rparr>
       = Some [\<lparr>lat = 1, lon = 2\<rparr>, \<lparr>lat = 3, lon = 4\<rparr>]
   \<and> roads (fetchData_settle False (ok_response 200
       [\<lparr>type = Way, id_el = 1, tags = Some [(''highway'', [])],
         geometry = Some [\<lparr>lat = 1, lon = 2\<rparr>, \<lparr>lat = 3, lon = 4\<rparr>]\<rparr>]) initial_hook) = []"
  by (simp add: eval_defs)

text \<open>
  Claim C2, amended. After a successful, uncancelled fetch the road state has one entry
  for each way element with geometry whose \<^verbatim>\<open>highway\<close> tag has a value that is not empty
  (the tests of lines 86-87), in the order of the response; the entry of an element has
  as many pairs as the element's geometry has points, and its pair at every index is
  the latitude and longitude of the point at that index.
\<close>

theorem roads_preserve_points:
  "(let ws = filter is_roadway els;
        out = roads (fetchData_settle False (ok_response st els) s)
    in length out = length ws \<and>
       (\<forall>k < length ws. \<exists>g. geometry (ws ! k) = Some g \<and>
          length (out ! k) = length g \<and>
          (\<forall>i < length g. out ! k ! i = (lat (g ! i), lon (g ! i)))))"
proof -
  let ?ws = "filter is_roadway els"
  have "\<exists>g. geometry (?ws ! k) = Some g \<and>
          length (to_pairs (points_of (?ws ! k))) = length g \<and>
          (\<forall>i < length g. to_pairs (points_of (?ws ! k)) ! i = (lat (g ! i), lon (g ! i)))"
    if "k < length ?ws" for k
  proof -
    from that have "?ws ! k \<in> set ?ws" by (rule nth_mem)
    then have "is_roadway (?ws ! k)" by simp
    then obtain g where g: "geometry (?ws ! k) = Some g"
      by (auto simp: is_roadway_def)
    then have "points_of (?ws ! k) = g" by (simp add: points_of_def)
    with g show ?thesis by (simp add: length_to_pairs nth_to_pairs)
  qed
  then show ?thesis by (simp add: settle_ok Let_def)
qed

text \<open>
  Two roads, the second one behind a node that is skipped.
\<close>

theorem roads_preserve_points_witness:
  "length (roads (fetchData_settle False
      (ok_response 200
        [\<lparr>type = Way, id_el = 1, tags = Some [(''highway'', ''residential'')],
          geometry = Some [\<lparr>lat = 1, lon = 2\<rparr>, \<lparr>lat = 3, lon = 4\<rparr>]\<rparr>,
         \<lparr>type = Node, id_el = 2, tags = Some [(''highway'', ''crossing'')],
          geometry = Some [\<lparr>lat = 9, lon = 9\<rparr>]\<rparr>,
         \<lparr>type = Way, id_el = 3, tags = Some [(''name'', ''A''), (''highway'', ''primary'')],
          geometry = Some [\<lparr>lat = 5, lon = 6\<rparr>, \<lparr>lat = 7, lon = 8\<rparr>, \<lparr>lat = 5, lon = 6\<rparr>]\<rparr>])
      initial_hook)) = 2
   \<and> roads (fetchData_settle False
      (ok_response 200
        [\<lparr>type = Way, id_el = 1, tags = Some [(''highway'', ''residential'')],
          geometry = Some [\<lparr>lat = 1, lon = 2\<rparr>, \<lparr>lat = 3, lon = 4\<rparr>]\<rparr>,
         \<lparr>type = Node, id_el = 2, tags = Some [(''highway'', ''crossing'')],
          geometry = Some [\<lparr>lat = 9, lon = 9\<rparr>]\<rparr>,
         \<lparr>type = Way, id_el = 3, tags = Some [(''name'', ''A''), (''highway'', ''primary'')],
          geometry = Some [\<lparr>lat = 5, lon = 6\<rparr>, \<lparr>lat = 7, lon = 8\<rparr>, \<lparr>lat = 5, lon = 6\<rparr>]\<rparr>])
      initial_hook) ! 1 = [(5, 6), (7, 8), (5, 6)]"
  using roads_preserve_points [of
        "[\<lparr>type = Way, id_el = 1, tags = Some [(''highway'', ''residential'')],
          geometry = Some [\<lparr>lat = 1, lon = 2\<rparr>, \<lparr>lat = 3, lon = 4\<rparr>]\<rparr>,
         \<lparr>type = Node, id_el = 2, tags = Some [(''highway'', ''crossing'')],
          geometry = Some [\<lparr>lat = 9, lon = 9\<rparr>]\<rparr>,
         \<lparr>type = Way, id_el = 3, tags = Some [(''name'', ''A''), (''highway'', ''primary'')],
          geometry = Some [\<lparr>lat = 5, lon = 6\<rparr>, \<lparr>lat = 7, lon = 8\<rparr>, \<lparr>lat = 5, lon = 6\<rparr>]\<rparr>]"
        200 initial_hook]
  by (simp add: eval_defs)

section \<open>The cap on buildings\<close>

text \<open>
  Claim C3. The building state holds the first 4000 polygons the loop collected,
  so it never has more than 4000 entries; the road state is the whole list the loop
  collected.
\<close>

theorem building_cap:
  "length (buildings (fetchData_settle False (ok_response st els) s))
     = min 4000 (length (snd (elements_loop els ([], []))))
   \<and> length (buildings (fetchData_settle False (ok_response st els) s)) \<le> 4000
   \<and> roads (fetchData_settle False (ok_response st els) s) = fst (elements_loop els ([], []))"
  by (simp add: settle_ok elements_loop_eq)

lemma elements_loop_replicate:
  "elements_loop (replicate n el) (rs, bs) =
     (rs @ concat (replicate n (fst (loop_body el ([], [])))),
      bs @ concat (replicate n (snd (loop_body el ([], [])))))"
  by (induction n arbitrary: rs bs) (simp_all add: loop_body_eq)

text \<open>
  4001 buildings in the response: the loop collects 4001 polygons, 4000 are stored.
\<close>

theorem building_cap_witness:
  "length (snd (elements_loop (replicate 4001
       \<lparr>type = Way, id_el = 7, tags = Some [(''building'', ''yes'')],
        geometry = Some [\<lparr>lat = 1, lon = 1\<rparr>, \<lparr>lat = 1, lon = 2\<rparr>, \<lparr>lat = 2, lon = 2\<rparr>]\<rparr>) ([], []))) = 4001
   \<and> length (buildings (fetchData_settle False (ok_response 200 (replicate 4001
       \<lparr>type = Way, id_el = 7, tags = Some [(''building'', ''yes'')],
        geometry = Some [\<lparr>lat = 1, lon = 1\<rparr>, \<lparr>lat = 1, lon = 2\<rparr>, \<lparr>lat = 2, lon = 2\<rparr>]\<rparr>)) initial_hook)) = 4000"
proof -
  let ?el = "\<lparr>type = Way, id_el = 7, tags = Some [(''building'', ''yes'')],
        geometry = Some [\<lparr>lat = 1, lon = 1\<rparr>, \<lparr>lat = 1, lon = 2\<rparr>, \<lparr>lat = 2, lon = 2\<rparr>]\<rparr>"
  have body: "snd (loop_body ?el ([], [])) = [[(1, 1), (1, 2), (2, 2), (1, 1)]]"
    by (simp add: eval_defs)
  have n: "length (snd (elements_loop (replicate 4001 ?el) ([], []))) = 4001"
    by (simp add: elements_loop_replicate body length_concat sum_list_replicate)
  from building_cap [of 200 "replicate 4001 ?el" initial_hook] n show ?thesis
    by simp
qed

section \<open>Partition into roads and buildings\<close>

lemma elements_loop_append:
  "elements_loop (xs @ ys) acc = elements_loop ys (elements_loop xs acc)"
  by (induction xs arbitrary: acc) simp_all

lemma not_both: "\<not> (is_roadway el \<and> is_structure el)"
  by (auto simp: is_roadway_def is_structure_def split: option.splits)

lemma buildings_as_map:
  "List.map_filter (\<lambda>el. close_polygon (points_of el)) (filter is_structure els)
     = map (\<lambda>el. the (close_polygon (points_of el)))
         (filter (\<lambda>el. is_structure el \<and> 2 < length (points_of el)) els)"
proof -
  have "(close_polygon g \<noteq> None) = (2 < length g)" for g
    using close_polygon_None [of g] by auto
  then show ?thesis
    by (simp add: List.map_filter_def comp_def)
qed

text \<open>
  Claim C4, as stated, asks every way element with geometry and a building tag to
  contribute one polygon. The guard of line 92 drops an outline of two points: the
  element below is classified as a structure and contributes nothing.
\<close>

theorem structure_with_two_points_counterexample:
  "is_structure
     \<lparr>type = Way, id_el = 1, tags = Some [(''building'', ''yes'')],
      geometry = Some [\<lparr>lat = 1, lon = 1\<rparr>, \<lparr>lat = 1, lon = 2\<rparr>]\<rparr>
   \<and> snd (elements_loop
       [\<lparr>type = Way, id_el = 1, tags = Some [(''building'', ''yes'')],
         geometry = Some [\<lparr>lat = 1, lon = 1\<rparr>, \<lparr>lat = 1, lon = 2\<rparr>]\<rparr>] ([], [])) = []
   \<and> buildings (fetchData_settle False (ok_response 200
       [\<lparr>type = Way, id_el = 1, tags = Some [(''building'', ''yes'')],
         geometry = Some [\<lparr>lat = 1, lon = 1\<rparr>, \<lparr>lat = 1, lon = 2\<rparr>]\<rparr>]) initial_hook) = []"
  by (simp add: eval_defs is_structure_def)

text \<open>
  Claim C4, amended. On a successful, uncancelled fetch the elements are partitioned:
  every way element with geometry whose highway tag is truthy contributes exactly one
  polyline to the road state, in order; every way element with geometry whose highway
  tag is not truthy, whose building tag is truthy and whose geometry has more than two
  points contributes exactly one polygon to the building list before the cap, and that
  polygon is closed; every other element contributes nothing; no element is both.
\<close>

theorem partition_roads_buildings:
  "roads (fetchData_settle False (ok_response st els) s)
     = map (\<lambda>el. to_pairs (points_of el)) (filter is_roadway els)
   \<and> snd (elements_loop els ([], []))
     = map (\<lambda>el. the (close_polygon (points_of el)))
         (filter (\<lambda>el. is_structure el \<and> 2 < length (points_of el)) els)
   \<and> buildings (fetchData_settle False (ok_response st els) s)
     = take 4000 (snd (elements_loop els ([], [])))
   \<and> (\<forall>el. 2 < length (points_of el) \<longrightarrow>
         (\<exists>poly. close_polygon (points_of el) = Some poly \<and> poly ! 0 = poly ! (length poly - 1)))
   \<and> (\<forall>el. \<not> (is_roadway el \<and> is_structure el))"
proof -
  have closed: "\<exists>poly. close_polygon (points_of el) = Some poly \<and> poly ! 0 = poly ! (length poly - 1)"
    if "2 < length (points_of el)" for el
  proof -
    from that have "close_polygon (points_of el) \<noteq> None"
      by (simp add: close_polygon_None)
    then obtain poly where "close_polygon (points_of el) = Some poly" by auto
    with close_polygon_Some(2) [OF this] show ?thesis by simp
  qed
  show ?thesis
    using closed not_both
    by (simp add: settle_ok elements_loop_eq buildings_as_map)
qed

text \<open>
  A way with both tags (a road only), a two-point building (dropped) and an open triangle.
\<close>

theorem partition_roads_buildings_witness:
  "roads (fetchData_settle False (ok_response 200
      [\<lparr>type = Way, id_el = 1, tags = Some [(''highway'', ''service''), (''building'', ''yes'')],
        geometry = Some [\<lparr>lat = 1, lon = 1\<rparr>, \<lparr>lat = 1, lon = 2\<rparr>, \<lparr>lat = 2, lon = 2\<rparr>]\<rparr>,
       \<lparr>type = Way, id_el = 2, tags = Some [(''building'', ''yes'')],
        geometry = Some [\<lparr>lat = 3, lon = 3\<rparr>, \<lparr>lat = 3, lon = 4\<rparr>]\<rparr>,
       \<lparr>type = Way, id_el = 3, tags = Some [(''building'', ''yes'')],
        geometry = Some [\<lparr>lat = 5, lon = 5\<rparr>, \<lparr>lat = 5, lon = 6\<rparr>, \<lparr>lat = 6, lon = 6\<rparr>]\<rparr>]) initial_hook)
     = [[(1, 1), (1, 2), (2, 2)]]
   \<and> buildings (fetchData_settle False (ok_response 200
      [\<lparr>type = Way, id_el = 1, tags = Some [(''highway'', ''service''), (''building'', ''yes'')],
        geometry = Some [\<lparr>lat = 1, lon = 1\<rparr>, \<lparr>lat = 1, lon = 2\<rparr>, \<lparr>lat = 2, lon = 2\<rparr>]\<rparr>,
       \<lparr>type = Way, id_el = 2, tags = Some [(''building'', ''yes'')],
        geometry = Some [\<lparr>lat = 3, lon = 3\<rparr>, \<lparr>lat = 3, lon = 4\<rparr>]\<rparr>,
       \<lparr>type = Way, id_el = 3, tags = Some [(''building'', ''yes'')],
        geometry = Some [\<lparr>lat = 5, lon = 5\<rparr>, \<lparr>lat = 5, lon = 6\<rparr>, \<lparr>lat = 6, lon = 6\<rparr>]\<rparr>]) initial_hook)
     = [[(5, 5), (5, 6), (6, 6), (5, 5)]]"
  using partition_roads_buildings [of 200
      "[\<lparr>type = Way, id_el = 1, tags = Some [(''highway'', ''service''), (''building'', ''yes'')],
        geometry = Some [\<lparr>lat = 1, lon = 1\<rparr>, \<lparr>lat = 1, lon = 2\<rparr>, \<lparr>lat = 2, lon = 2\<rparr>]\<rparr>,
       \<lparr>type = Way, id_el = 2, tags = Some [(''building'', ''yes'')],
        geometry = Some [\<lparr>lat = 3, lon = 3\<rparr>, \<lparr>lat = 3, lon = 4\<rparr>]\<rparr>,
       \<lparr>type = Way, id_el = 3, tags = Some [(''building'', ''yes'')],
        geometry = Some [\<lparr>lat = 5, lon = 5\<rparr>, \<lparr>lat = 5, lon = 6\<rparr>, \<lparr>lat = 6, lon = 6\<rparr>]\<rparr>]"
      initial_hook]
  by (simp add: eval_defs)

section \<open>The example of the specification\<close>

text \<open>
  Claim C6. The element with type way, tags building=yes and the geometry
  (1,1), (1,2), (2,2) yields the polygon (1,1), (1,2), (2,2), (1,1), whatever its id.
\<close>

theorem example_open_triangle:
  "snd (elements_loop
     [\<lparr>type = Way, id_el = n, tags = Some [(''building'', ''yes'')],
       geometry = Some [\<lparr>lat = 1, lon = 1\<rparr>, \<lparr>lat = 1, lon = 2\<rparr>, \<lparr>lat = 2, lon = 2\<rparr>]\<rparr>] ([], []))
     = [[(1, 1), (1, 2), (2, 2), (1, 1)]]
   \<and> buildings (fetchData_settle False (ok_response st
     [\<lparr>type = Way, id_el = n, tags = Some [(''building'', ''yes'')],
       geometry = Some [\<lparr>lat = 1, lon = 1\<rparr>, \<lparr>lat = 1, lon = 2\<rparr>, \<lparr>lat = 2, lon = 2\<rparr>]\<rparr>]) s)
     = [[(1, 1), (1, 2), (2, 2), (1, 1)]]"
  by (simp add: eval_defs)

theorem example_open_triangle_witness:
  "buildings (fetchData_settle False (ok_response 200
     [\<lparr>type = Way, id_el = 42, tags = Some [(''building'', ''yes'')],
       geometry = Some [\<lparr>lat = 1, lon = 1\<rparr>, \<lparr>lat = 1, lon = 2\<rparr>, \<lparr>lat = 2, lon = 2\<rparr>]\<rparr>]) initial_hook)
     = [[(1, 1), (1, 2), (2, 2), (1, 1)]]"
  using example_open_triangle [of 42 200 initial_hook]
  by simp

section \<open>Skipped elements\<close>

text \<open>
  Claim C9. An element that is not a way, or has no geometry, or has no tags leaves
  both accumulators as they are: the response gives the same result with and without it.
  The loop body is a total function, so no error arises.
\<close>

theorem skipped_elements:
  assumes "type el \<noteq> Way \<or> geometry el = None \<or> tags el = None"
  shows "loop_body el acc = acc
    \<and> elements_loop (before @ el # after) acc = elements_loop (before @ after) acc"
proof -
  from assms have "loop_body el a = a" for a
    by (cases a) (auto simp: loop_body_def split: option.splits)
  then show ?thesis by (simp add: elements_loop_append)
qed

theorem skipped_elements_witness:
  "type \<lparr>type = Node, id_el = 5, tags = Some [(''highway'', ''crossing'')],
         geometry = Some [\<lparr>lat = 1, lon = 1\<rparr>]\<rparr> \<noteq> Way
   \<and> loop_body \<lparr>type = Node, id_el = 5, tags = Some [(''highway'', ''crossing'')],
         geometry = Some [\<lparr>lat = 1, lon = 1\<rparr>]\<rparr> ([[(0, 0)]], []) = ([[(0, 0)]], [])
   \<and> elements_loop ([] @ \<lparr>type = Node, id_el = 5, tags = Some [(''highway'', ''crossing'')],
         geometry = Some [\<lparr>lat = 1, lon = 1\<rparr>]\<rparr> # []) ([[(0, 0)]], []) = elements_loop ([] @ []) ([[(0, 0)]], [])"
  using skipped_elements [of "\<lparr>type = Node, id_el = 5, tags = Some [(''highway'', ''crossing'')],
         geometry = Some [\<lparr>lat = 1, lon = 1\<rparr>]\<rparr>" "([[(0, 0)]], [])" "[]" "[]"]
  by simp

section \<open>Outlines of at most two points\<close>

text \<open>
  Claim C10. An element classified as a structure whose geometry has two points or
  fewer changes neither accumulator; whatever its tags, an element with such a geometry
  adds nothing to the building list; so every stored polygon has at least three points.
\<close>

theorem short_structures_discarded:
  "(is_structure el \<and> length (points_of el) \<le> 2 \<longrightarrow> loop_body el acc = acc)
   \<and> (geometry el = Some g \<and> length g \<le> 2 \<longrightarrow> snd (loop_body el (rs, bs)) = bs)
   \<and> (\<forall>poly \<in> set (buildings (fetchData_settle False (ok_response st els) s)). 3 \<le> length poly)"
proof -
  have a: "loop_body el acc = acc" if "is_structure el" "length (points_of el) \<le> 2"
  proof -
    from that(2) have "close_polygon (points_of el) = None" by (simp add: close_polygon_None)
    with that(1) not_both [of el] show ?thesis
      by (cases acc) (simp add: loop_body_eq)
  qed
  have b: "snd (loop_body el (rs, bs)) = bs" if "geometry el = Some g" "length g \<le> 2"
  proof -
    from that have "close_polygon (points_of el) = None"
      by (simp add: close_polygon_None points_of_def)
    then show ?thesis by (simp add: loop_body_eq)
  qed
  have c: "3 \<le> length poly"
    if "poly \<in> set (buildings (fetchData_settle False (ok_response st els) s))" for poly
  proof -
    from that have "poly \<in> set (List.map_filter (\<lambda>el. close_polygon (points_of el)) (filter is_structure els))"
      by (auto simp: settle_ok dest: in_set_takeD)
    then obtain e where "close_polygon (points_of e) = Some poly"
      by (blast dest: in_map_filterD)
    then show ?thesis by (rule close_polygon_Some(1))
  qed
  from a b c show ?thesis by blast
qed

theorem short_structures_discarded_witness:
  "loop_body \<lparr>type = Way, id_el = 2, tags = Some [(''building'', ''yes'')],
        geometry = Some [\<lparr>lat = 3, lon = 3\<rparr>, \<lparr>lat = 3, lon = 4\<rparr>]\<rparr> ([], [[(0, 0), (0, 1), (1, 1), (0, 0)]])
     = ([], [[(0, 0), (0, 1), (1, 1), (0, 0)]])
   \<and> buildings (fetchData_settle False (ok_response 200
       [\<lparr>type = Way, id_el = 2, tags = Some [(''building'', ''yes'')],
        geometry = Some [\<lparr>lat = 3, lon = 3\<rparr>, \<lparr>lat = 3, lon = 4\<rparr>]\<rparr>]) initial_hook) = []"
  using short_structures_discarded [of
      "\<lparr>type = Way, id_el = 2, tags = Some [(''building'', ''yes'')],
        geometry = Some [\<lparr>lat = 3, lon = 3\<rparr>, \<lparr>lat = 3, lon = 4\<rparr>]\<rparr>"
      "([], [[(0, 0), (0, 1), (1, 1), (0, 0)]])"
      "[\<lparr>lat = 3, lon = 3\<rparr>, \<lparr>lat = 3, lon = 4\<rparr>]" "[]" "[]" 200
      "[\<lparr>type = Way, id_el = 2, tags = Some [(''building'', ''yes'')],
        geometry = Some [\<lparr>lat = 3, lon = 3\<rparr>, \<lparr>lat = 3, lon = 4\<rparr>]\<rparr>]" initial_hook]
  by (simp add: eval_defs is_structure_def points_of_def)

section \<open>A failed fetch\<close>

text \<open>
  Claim C8. The three ways the \<^verbatim>\<open>try\<close> block throws before line 82 are a rejected
  \<^verbatim>\<open>fetch\<close>, a response that is not \<^verbatim>\<open>ok\<close> and a body that \<^verbatim>\<open>res.json()\<close> rejects. Whenever
  it throws and the run is not cancelled, the error state becomes the message of the
  thrown value (or the fallback text), loading is switched off, and the road and
  building states keep the values they had.
\<close>

theorem failed_fetch_keeps_geometry:
  "awaited (Rejected e) = Inl e
   \<and> awaited (Resolved \<lparr>ok = False, status = st, json = body\<rparr>)
       = Inl \<lparr>message = Some (''Overpass error: '' @ string_of_nat st)\<rparr>
   \<and> awaited (Resolved \<lparr>ok = True, status = st, json = Inl e\<rparr>) = Inl e
   \<and> (awaited r = Inl e' \<longrightarrow>
        error (fetchData_settle False r s)
          = Some (case message e' of None \<Rightarrow> ''Failed to load map data'' | Some m \<Rightarrow> m)
        \<and> roads (fetchData_settle False r s) = roads s
        \<and> buildings (fetchData_settle False r s) = buildings s
        \<and> \<not> loading (fetchData_settle False r s))"
  by (simp add: awaited_def fetchData_settle_def)

text \<open>
  A gateway timeout arriving while geometry of an earlier fetch is on the map.
\<close>

theorem failed_fetch_keeps_geometry_witness:
  "error (fetchData_settle False (Resolved \<lparr>ok = False, status = 504, json = Inr \<lparr>elements = []\<rparr>\<rparr>)
      \<lparr>roads = [[(1, 1), (1, 2)]], buildings = [[(1, 1), (1, 2), (2, 2), (1, 1)]], loading = True, error = None\<rparr>)
     = Some ''Overpass error: 504''
   \<and> roads (fetchData_settle False (Resolved \<lparr>ok = False, status = 504, json = Inr \<lparr>elements = []\<rparr>\<rparr>)
      \<lparr>roads = [[(1, 1), (1, 2)]], buildings = [[(1, 1), (1, 2), (2, 2), (1, 1)]], loading = True, error = None\<rparr>)
     = [[(1, 1), (1, 2)]]
   \<and> buildings (fetchData_settle False (Resolved \<lparr>ok = False, status = 504, json = Inr \<lparr>elements = []\<rparr>\<rparr>)
      \<lparr>roads = [[(1, 1), (1, 2)]], buildings = [[(1, 1), (1, 2), (2, 2), (1, 1)]], loading = True, error = None\<rparr>)
     = [[(1, 1), (1, 2), (2, 2), (1, 1)]]"
  using failed_fetch_keeps_geometry [of "\<lparr>message = None\<rparr>" 504 "Inr \<lparr>elements = []\<rparr>"
      "Resolved \<lparr>ok = False, status = 504, json = Inr \<lparr>elements = []\<rparr>\<rparr>"
      "\<lparr>message = Some ''Overpass error: 504''\<rparr>"
      "\<lparr>roads = [[(1, 1), (1, 2)]], buildings = [[(1, 1), (1, 2), (2, 2), (1, 1)]], loading = True, error = None\<rparr>"]
  by (simp add: awaited_def string_of_nat.simps)

section \<open>Stale responses\<close>

lemma cleanup_Nil: "cleanup [] = []"
  by (simp add: cleanup_def)

lemma cleanup_snoc: "cleanup (rs @ [r]) = rs @ [r\<lparr>cancelled := True\<rparr>]"
  by (simp add: cleanup_def)

lemma length_cleanup: "length (cleanup rs) = length rs"
  by (cases rs rule: rev_cases) (simp_all add: cleanup_Nil cleanup_snoc)

lemma cancelled_cleanup:
  "i < length rs \<Longrightarrow> cancelled (cleanup rs ! i) = (cancelled (rs ! i) \<or> Suc i = length rs)"
  by (cases rs rule: rev_cases) (auto simp: cleanup_Nil cleanup_snoc nth_append)

lemma for_bbox_cleanup:
  "i < length rs \<Longrightarrow> for_bbox (cleanup rs ! i) = for_bbox (rs ! i)"
  by (cases rs rule: rev_cases) (auto simp: cleanup_Nil cleanup_snoc nth_append)

lemma only_latest_live_initial: "only_latest_live initial_component"
  by (simp add: only_latest_live_def initial_component_def)

lemma only_latest_live_step:
  assumes "only_latest_live c"
  shows "only_latest_live (step e c)"
proof (cases e)
  case (Render b)
  show ?thesis
  proof (cases "unmounted c \<or> deps c = Some b")
    case True
    with assms Render show ?thesis by simp
  next
    case False
    have "cancelled ((cleanup (runs c) @ [\<lparr>for_bbox = b, cancelled = False\<rparr>]) ! i)"
      if "i < length (runs c)" for i
    proof -
      from that have "cancelled (runs c ! i) \<or> Suc i = length (runs c)"
        using assms by (auto simp: only_latest_live_def)
      with that show ?thesis
        by (simp add: nth_append length_cleanup cancelled_cleanup)
    qed
    with False Render show ?thesis
      by (simp add: only_latest_live_def length_cleanup)
  qed
next
  case Unmount
  have "cancelled (cleanup (runs c) ! i)" if "i < length (runs c)" for i
  proof -
    from that have "cancelled (runs c ! i) \<or> Suc i = length (runs c)"
      using assms by (auto simp: only_latest_live_def)
    with that show ?thesis by (simp add: cancelled_cleanup)
  qed
  moreover have "for_bbox (last (cleanup (runs c))) = for_bbox (last (runs c))"
    by (cases "runs c" rule: rev_cases) (simp_all add: cleanup_Nil cleanup_snoc)
  moreover have "(cleanup (runs c) = []) = (runs c = [])"
    using length_cleanup [of "runs c"] by (metis length_0_conv)
  ultimately show ?thesis
    using assms Unmount by (simp add: only_latest_live_def length_cleanup)
next
  case (Settle i r)
  with assms show ?thesis by (simp add: only_latest_live_def)
qed

lemma only_latest_live_run: "only_latest_live c \<Longrightarrow> only_latest_live (run evs c)"
  by (induction evs arbitrary: c) (simp_all add: only_latest_live_step)

text \<open>
  Claim C5. In every state the component reaches from its initial state, when the
  promises of run \<open>i\<close> settle after the component was unmounted, or after the bounding
  box of that run stopped being the current one, or after a later run started, the
  whole hook state (roads, buildings, loading and error) stays as it is, whatever
  the response.
\<close>

theorem stale_fetch_not_applied:
  assumes "c = run evs initial_component"
    and "i < length (runs c)"
    and "unmounted c \<or> deps c \<noteq> Some (for_bbox (runs c ! i)) \<or> Suc i < length (runs c)"
  shows "hook (step (Settle i r) c) = hook c"
proof -
  from assms(1) have inv: "only_latest_live c"
    by (simp add: only_latest_live_run only_latest_live_initial)
  have "cancelled (runs c ! i)"
  proof (cases "unmounted c \<or> Suc i < length (runs c)")
    case True
    with inv assms(2) show ?thesis by (auto simp: only_latest_live_def)
  next
    case False
    with assms(3) have differs: "deps c \<noteq> Some (for_bbox (runs c ! i))" by blast
    from assms(2) have "runs c \<noteq> []" by auto
    with inv have "deps c = Some (for_bbox (last (runs c)))"
      by (simp add: only_latest_live_def)
    with differs \<open>runs c \<noteq> []\<close> have "i \<noteq> length (runs c) - 1"
      by (auto simp: last_conv_nth)
    with assms(2) False show ?thesis by auto
  qed
  with assms(2) show ?thesis by (simp add: settle_cancelled)
qed

text \<open>
  The bounding box changes while the first fetch is in flight: the answer to the
  first fetch changes nothing, the answer to the second is stored.
\<close>

theorem stale_fetch_not_applied_witness:
  "hook (step (Settle 0 (ok_response 200
       [\<lparr>type = Way, id_el = 7, tags = Some [(''building'', ''yes'')],
         geometry = Some [\<lparr>lat = 1, lon = 1\<rparr>, \<lparr>lat = 1, lon = 2\<rparr>, \<lparr>lat = 2, lon = 2\<rparr>]\<rparr>]))
     (run [Render \<lparr>south = 0, west = 0, north = 1, east = 1\<rparr>,
           Render \<lparr>south = 0, west = 0, north = 2, east = 2\<rparr>] initial_component))
     = hook (run [Render \<lparr>south = 0, west = 0, north = 1, east = 1\<rparr>,
           Render \<lparr>south = 0, west = 0, north = 2, east = 2\<rparr>] initial_component)
   \<and> buildings (hook (step (Settle 1 (ok_response 200
       [\<lparr>type = Way, id_el = 7, tags = Some [(''building'', ''yes'')],
         geometry = Some [\<lparr>lat = 1, lon = 1\<rparr>, \<lparr>lat = 1, lon = 2\<rparr>, \<lparr>lat = 2, lon = 2\<rparr>]\<rparr>]))
     (run [Render \<lparr>south = 0, west = 0, north = 1, east = 1\<rparr>,
           Render \<lparr>south = 0, west = 0, north = 2, east = 2\<rparr>] initial_component)))
     = [[(1, 1), (1, 2), (2, 2), (1, 1)]]
   \<and> deps (run [Render \<lparr>south = 0, west = 0, north = 1, east = 1\<rparr>,
           Render \<lparr>south = 0, west = 0, north = 2, east = 2\<rparr>] initial_component)
     = Some \<lparr>south = 0, west = 0, north = 2, east = 2\<rparr>"
  using stale_fetch_not_applied [OF refl, of 0
      "[Render \<lparr>south = 0, west = 0, north = 1, east = 1\<rparr>,
        Render \<lparr>south = 0, west = 0, north = 2, east = 2\<rparr>]"
      "ok_response 200
       [\<lparr>type = Way, id_el = 7, tags = Some [(''building'', ''yes'')],
         geometry = Some [\<lparr>lat = 1, lon = 1\<rparr>, \<lparr>lat = 1, lon = 2\<rparr>, \<lparr>lat = 2, lon = 2\<rparr>]\<rparr>]"]
  by (simp add: eval_defs initial_component_def cleanup_def fetchData_start_def)

section \<open>Selection\<close>

text \<open>
  Claim C7. A click on the point \<open>i\<close> makes it the active point and opens the panel;
  the Close button closes the panel and leaves the active point as it was; neither
  touches the label switch; and in every selection state at most one of the points
  is drawn active.
\<close>

theorem selection_single_slot:
  "activePoint (handlePointClick i s) = Some i
   \<and> panelOpen (handlePointClick i s)
   \<and> showLabels (handlePointClick i s) = showLabels s
   \<and> \<not> panelOpen (close_click s)
   \<and> activePoint (close_click s) = activePoint s
   \<and> showLabels (close_click s) = showLabels s
   \<and> length (filter (active s) points) \<le> 1"
  by (cases "activePoint s") (simp_all add: handlePointClick_def close_click_def active_def points_def)

text \<open>
  Point 2 is clicked, the panel is closed, then point 3 is clicked.
\<close>

theorem selection_single_slot_witness:
  "activePoint (close_click (handlePointClick 2 initial_selection)) = Some 2
   \<and> \<not> panelOpen (close_click (handlePointClick 2 initial_selection))
   \<and> activePoint (handlePointClick 3 (close_click (handlePointClick 2 initial_selection))) = Some 3
   \<and> map id_pt (filter (active (handlePointClick 2 initial_selection)) points) = [2]"
  using selection_single_slot [of 2 initial_selection]
    selection_single_slot [of 3 "handlePointClick 2 initial_selection"]
    selection_single_slot [of 3 "close_click (handlePointClick 2 initial_selection)"]
  by (simp add: handlePointClick_def active_def points_def)

end
